theory Spec2Isabelle
  imports Main
begin

section \<open>Jobly: the partial-update compiler and its callers\<close>

text \<open>
  The development embeds \<^verbatim>\<open>helpers/sql.js\<close> (\<^verbatim>\<open>sqlForPartialUpdate\<close>) and the two
  \<^verbatim>\<open>update\<close> methods of \<^verbatim>\<open>models/company.js\<close> and \<^verbatim>\<open>models/job.js\<close>.

  \<^item> A JavaScript object that is iterated (the payload \<^verbatim>\<open>dataToUpdate\<close>) is the list of
    its own enumerable properties, in the order in which \<^verbatim>\<open>Object.keys\<close> and
    \<^verbatim>\<open>Object.values\<close> enumerate them (the order of insertion, but for keys that are
    array indices, which come first); the keys of an object are pairwise distinct.
    The values stay abstract (a type variable): the code never inspects them.
  \<^item> An object that is only read by key (the table \<^verbatim>\<open>jsToSql\<close>) is the partial function
    of its own properties, whose values are strings: \<open>jsToSql k = Some c\<close> when the table
    has the own property \<open>k\<close> with the value \<open>c\<close>, and \<open>None\<close> when it has no own
    property \<open>k\<close>. A table is an ordinary object, as an object literal is: what it has
    not itself it inherits from \<^verbatim>\<open>Object.prototype\<close>.
  \<^item> A \<^verbatim>\<open>throw\<close> is the left injection of a sum type.
\<close>

subsection \<open>Errors\<close>

text \<open>
  The classes of \<^verbatim>\<open>expressError.js\<close> that the code throws, each with its message.
  \<open>QueryError\<close> stands for whatever \<^verbatim>\<open>db.query\<close> itself rejects with.
\<close>

datatype error = BadRequestError string | NotFoundError string | QueryError string

subsection \<open>Strings\<close>

text \<open>
  The conversion of a non-negative integer to a string, as string concatenation and
  template literals do it for \<^verbatim>\<open>idx + 1\<close> and \<^verbatim>\<open>values.length + 1\<close>: decimal digits,
  most significant first, no leading zero.
\<close>

definition digit :: "nat \<Rightarrow> char" where
  "digit d = ''0123456789'' ! d"

function decimal :: "nat \<Rightarrow> string" where
  "decimal n = (if n < 10 then [digit n] else decimal (n div 10) @ [digit (n mod 10)])"
  by pat_completeness auto
termination
  by (relation "measure id") auto

declare decimal.simps [simp del]

text \<open>\<^verbatim>\<open>Array.prototype.join\<close> on an array of strings.\<close>

fun join :: "string \<Rightarrow> string list \<Rightarrow> string" where
  "join sep [] = []"
| "join sep [x] = x"
| "join sep (x # y # ys) = x @ sep @ join sep (y # ys)"

subsection \<open>\<^verbatim>\<open>sqlForPartialUpdate\<close>\<close>

text \<open>
  \<^verbatim>\<open>
  function sqlForPartialUpdate(dataToUpdate, jsToSql) {
    const keys = Object.keys(dataToUpdate);
    if (keys.length === 0) throw new BadRequestError("No data");
    const cols = keys.map((colName, idx) =>
        `"${jsToSql[colName] || colName}"=$${idx + 1}`,
    );
    return {
      setCols: cols.join(", "),
      values: Object.values(dataToUpdate),
    };
  }
  \<close>
\<close>

definition Object_keys :: "(string \<times> 'v) list \<Rightarrow> string list" where
  "Object_keys obj = map fst obj"

definition Object_values :: "(string \<times> 'v) list \<Rightarrow> 'v list" where
  "Object_values obj = map snd obj"

text \<open>
  The members of \<^verbatim>\<open>Object.prototype\<close> on Node.js, each with the string that a template
  literal makes of it. Eleven are built-in functions, printed as
  \<^verbatim>\<open>function name() { [native code] }\<close>; the read of \<^verbatim>\<open>__proto__\<close> gives the prototype
  object itself, printed as \<^verbatim>\<open>[object Object]\<close>.
\<close>

definition native_function :: "string \<Rightarrow> string" where
  "native_function name = ''function '' @ name @ ''() { [native code] }''"

definition Object_prototype :: "string \<rightharpoonup> string" where
  "Object_prototype = map_of
     [(''constructor'', native_function ''Object''),
      (''__defineGetter__'', native_function ''__defineGetter__''),
      (''__defineSetter__'', native_function ''__defineSetter__''),
      (''hasOwnProperty'', native_function ''hasOwnProperty''),
      (''__lookupGetter__'', native_function ''__lookupGetter__''),
      (''__lookupSetter__'', native_function ''__lookupSetter__''),
      (''isPrototypeOf'', native_function ''isPrototypeOf''),
      (''propertyIsEnumerable'', native_function ''propertyIsEnumerable''),
      (''toString'', native_function ''toString''),
      (''valueOf'', native_function ''valueOf''),
      (''toLocaleString'', native_function ''toLocaleString''),
      (''__proto__'', ''[object Object]'')]"

text \<open>
  \<^verbatim>\<open>jsToSql[colName] || colName\<close>. The property read gives the table's own property
  when it has one, else the member of \<^verbatim>\<open>Object.prototype\<close> of that name, else
  \<^verbatim>\<open>undefined\<close>. The operator \<^verbatim>\<open>||\<close> yields its right operand when the left one is
  falsy: \<^verbatim>\<open>undefined\<close> or the empty string. An inherited member is a function or an
  object, hence truthy, and the template literal turns it into its string.
\<close>

definition resolved :: "(string \<rightharpoonup> string) \<Rightarrow> string \<Rightarrow> string" where
  "resolved jsToSql colName =
     (case jsToSql colName of
        Some c \<Rightarrow> if c = [] then colName else c
      | None \<Rightarrow>
          (case Object_prototype colName of
             Some member \<Rightarrow> member
           | None \<Rightarrow> colName))"

text \<open>The body of the arrow function given to \<^verbatim>\<open>keys.map\<close>.\<close>

definition col :: "(string \<rightharpoonup> string) \<Rightarrow> string \<Rightarrow> nat \<Rightarrow> string" where
  \<open>col jsToSql colName idx = ''"'' @ resolved jsToSql colName @ ''"=$'' @ decimal (idx + 1)\<close>

record 'v fragment =
  setCols :: string
  "values" :: "'v list"

definition sqlForPartialUpdate ::
  "(string \<times> 'v) list \<Rightarrow> (string \<rightharpoonup> string) \<Rightarrow> error + 'v fragment" where
  "sqlForPartialUpdate dataToUpdate jsToSql =
     (let keys = Object_keys dataToUpdate in
      if length keys = 0 then Inl (BadRequestError ''No data'')
      else
        let cols = map (\<lambda>(idx, colName). col jsToSql colName idx) (List.enumerate 0 keys)
        in Inr \<lparr>setCols = join '', '' cols, values = Object_values dataToUpdate\<rparr>)"

subsection \<open>The database\<close>

text \<open>
  \<^verbatim>\<open>db.query(text, params)\<close> belongs to the module \<^verbatim>\<open>db.js\<close>, an external collaborator.
  Its effect on the stored data and the rows it returns are a parameter \<open>exec\<close>
  (which may also fail); the state of the database is the stored data together with
  the list of the statements sent so far, each with its parameter array.
\<close>

record ('s, 'v) db =
  store :: 's
  issued :: "(string \<times> 'v list) list"

type_synonym ('s, 'v, 'r) exec = "string \<Rightarrow> 'v list \<Rightarrow> 's \<Rightarrow> (string + 'r list) \<times> 's"

definition db_query ::
  "('s, 'v, 'r) exec \<Rightarrow> string \<Rightarrow> 'v list \<Rightarrow> ('s, 'v) db \<Rightarrow> (error + 'r list) \<times> ('s, 'v) db" where
  "db_query exec text params db =
     (let (res, s) = exec text params (store db);
          db' = \<lparr>store = s, issued = issued db @ [(text, params)]\<rparr>
      in (case res of
            Inl msg \<Rightarrow> (Inl (QueryError msg), db')
          | Inr rows \<Rightarrow> (Inr rows, db')))"

subsection \<open>\<^verbatim>\<open>Company.update\<close> and \<^verbatim>\<open>Job.update\<close>\<close>

definition newline :: string where
  "newline = [CHR 0x0A]"

text \<open>
  \<^verbatim>\<open>
  static async update(handle, data) {
    const { setCols, values } = sqlForPartialUpdate(
        data,
        {
          numEmployees: "num_employees",
          logoUrl: "logo_url",
        });
    const handleVarIdx = "$" + (values.length + 1);

    const querySql = `UPDATE companies 
                      SET ${setCols} 
                      WHERE handle = ${handleVarIdx} 
                      RETURNING handle, 
                                name, 
                                description, 
                                num_employees AS "numEmployees", 
                                logo_url AS "logoUrl"`;
    const result = await db.query(querySql, [...values, handle]);
    const company = result.rows[0];

    if (!company) throw new NotFoundError(`No company: ${handle}`);

    return company;
  }
  \<close>
  The template literal is a function of its two holes. \<open>ToString\<close> is the conversion
  of a value to a string that the template literal of the error message applies to
  \<^verbatim>\<open>handle\<close>.
\<close>

definition company_querySql :: "string \<Rightarrow> string \<Rightarrow> string" where
  \<open>company_querySql setCols' handleVarIdx =
     ''UPDATE companies '' @ newline @
     ''                      SET '' @ setCols' @ '' '' @ newline @
     ''                      WHERE handle = '' @ handleVarIdx @ '' '' @ newline @
     ''                      RETURNING handle, '' @ newline @
     ''                                name, '' @ newline @
     ''                                description, '' @ newline @
     ''                                num_employees AS "numEmployees", '' @ newline @
     ''                                logo_url AS "logoUrl"''\<close>

definition company_jsToSql :: "string \<rightharpoonup> string" where
  "company_jsToSql = [''numEmployees'' \<mapsto> ''num_employees'', ''logoUrl'' \<mapsto> ''logo_url'']"

definition Company_update ::
  "('s, 'v, 'r) exec \<Rightarrow> ('v \<Rightarrow> string) \<Rightarrow> 'v \<Rightarrow> (string \<times> 'v) list \<Rightarrow> ('s, 'v) db
     \<Rightarrow> (error + 'r) \<times> ('s, 'v) db" where
  "Company_update exec ToString handle data db =
     (case sqlForPartialUpdate data company_jsToSql of
        Inl e \<Rightarrow> (Inl e, db)
      | Inr frag \<Rightarrow>
          let handleVarIdx = ''$'' @ decimal (length (values frag) + 1);
              querySql = company_querySql (setCols frag) handleVarIdx;
              (result, db') = db_query exec querySql (values frag @ [handle]) db
          in (case result of
                Inl e \<Rightarrow> (Inl e, db')
              | Inr [] \<Rightarrow> (Inl (NotFoundError (''No company: '' @ ToString handle)), db')
              | Inr (company # rest) \<Rightarrow> (Inr company, db')))"

text \<open>
  \<^verbatim>\<open>
  static async update(id, data) {
    const { setCols, values } = sqlForPartialUpdate(
        data,
        {
          equity: "equity",
          companyHandle: "company_handle",
        });
    const idVarIdx = "$" + (values.length + 1);

    const querySql = `UPDATE jobs 
                      SET ${setCols} 
                      WHERE id = ${idVarIdx} 
                      RETURNING id, 
                                title, 
                                salary, 
                                equity AS "equity", 
                                company_handle AS "companyHandle"`;
    const result = await db.query(querySql, [...values, id]);
    const job = result.rows[0];

    if (!job) throw new NotFoundError(`No job: ${id}`);

    return job;
  }
  \<close>
  The parameter \<^verbatim>\<open>id\<close> is written \<open>id'\<close>.
\<close>

definition job_querySql :: "string \<Rightarrow> string \<Rightarrow> string" where
  \<open>job_querySql setCols' idVarIdx =
     ''UPDATE jobs '' @ newline @
     ''                      SET '' @ setCols' @ '' '' @ newline @
     ''                      WHERE id = '' @ idVarIdx @ '' '' @ newline @
     ''                      RETURNING id, '' @ newline @
     ''                                title, '' @ newline @
     ''                                salary, '' @ newline @
     ''                                equity AS "equity", '' @ newline @
     ''                                company_handle AS "companyHandle"''\<close>

definition job_jsToSql :: "string \<rightharpoonup> string" where
  "job_jsToSql = [''equity'' \<mapsto> ''equity'', ''companyHandle'' \<mapsto> ''company_handle'']"

definition Job_update ::
  "('s, 'v, 'r) exec \<Rightarrow> ('v \<Rightarrow> string) \<Rightarrow> 'v \<Rightarrow> (string \<times> 'v) list \<Rightarrow> ('s, 'v) db
     \<Rightarrow> (error + 'r) \<times> ('s, 'v) db" where
  "Job_update exec ToString id' data db =
     (case sqlForPartialUpdate data job_jsToSql of
        Inl e \<Rightarrow> (Inl e, db)
      | Inr frag \<Rightarrow>
          let idVarIdx = ''$'' @ decimal (length (values frag) + 1);
              querySql = job_querySql (setCols frag) idVarIdx;
              (result, db') = db_query exec querySql (values frag @ [id']) db
          in (case result of
                Inl e \<Rightarrow> (Inl e, db')
              | Inr [] \<Rightarrow> (Inl (NotFoundError (''No job: '' @ ToString id')), db')
              | Inr (job # rest) \<Rightarrow> (Inr job, db')))"

subsection \<open>\<^verbatim>\<open>sqlForPartialUpdate\<close> on references\<close>

text \<open>
  JavaScript passes objects by reference. To state what a call does to the objects that
  exist before it, the same function is written once more over a heap: a list of cells,
  a reference being an index into it. The cells are the kinds of object the function
  meets: the payload, the table, an array of strings (\<^verbatim>\<open>keys\<close>, \<^verbatim>\<open>cols\<close>), an array of
  values, and the returned object with its string \<^verbatim>\<open>setCols\<close> and its reference to the
  array \<^verbatim>\<open>values\<close>. \<^verbatim>\<open>Object.keys\<close>, \<^verbatim>\<open>Array.prototype.map\<close>, \<^verbatim>\<open>Object.values\<close> and the
  object literal each create a new object; \<^verbatim>\<open>join\<close> yields a string, which is a value.
  The function has no assignment to a property or an element, and no call of
  \<^verbatim>\<open>db.query\<close>. The world is the heap together with the database.
\<close>

type_synonym ref = nat

datatype 'v cell =
    Object_cell "(string \<times> 'v) list"
  | Table_cell "string \<rightharpoonup> string"
  | Strings_cell "string list"
  | Values_cell "'v list"
  | Fragment_cell string ref

record ('s, 'v) world =
  heap :: "'v cell list"
  database :: "('s, 'v) db"

definition deref :: "('s, 'v) world \<Rightarrow> ref \<Rightarrow> 'v cell option" where
  "deref w r = (if r < length (heap w) then Some (heap w ! r) else None)"

definition alloc :: "'v cell \<Rightarrow> ('s, 'v) world \<Rightarrow> ref \<times> ('s, 'v) world" where
  "alloc c w = (length (heap w), w\<lparr>heap := heap w @ [c]\<rparr>)"

text \<open>
  The result is \<open>None\<close> when the arguments are not references to a payload and to a
  table: such calls are outside the model.
\<close>

definition sqlForPartialUpdate_refs ::
  "ref \<Rightarrow> ref \<Rightarrow> ('s, 'v) world \<Rightarrow> ((error + ref) \<times> ('s, 'v) world) option" where
  "sqlForPartialUpdate_refs dataToUpdate jsToSql w =
     (case (deref w dataToUpdate, deref w jsToSql) of
        (Some (Object_cell obj), Some (Table_cell table)) \<Rightarrow>
          let ks = Object_keys obj;
              (keys, w1) = alloc (Strings_cell ks) w
          in if length ks = 0 then Some (Inl (BadRequestError ''No data''), w1)
             else
               let cs = map (\<lambda>(idx, colName). col table colName idx) (List.enumerate 0 ks);
                   (cols, w2) = alloc (Strings_cell cs) w1;
                   (vals, w3) = alloc (Values_cell (Object_values obj)) w2;
                   (res, w4) = alloc (Fragment_cell (join '', '' cs) vals) w3
               in Some (Inr res, w4)
      | _ \<Rightarrow> None)"

text \<open>Reading a result back from the heap: the error, or the returned object by value.\<close>

definition outcome :: "('s, 'v) world \<Rightarrow> error + ref \<Rightarrow> (error + 'v fragment) option" where
  "outcome w r =
     (case r of
        Inl e \<Rightarrow> Some (Inl e)
      | Inr a \<Rightarrow>
          (case deref w a of
             Some (Fragment_cell s v) \<Rightarrow>
               (case deref w v of
                  Some (Values_cell vs) \<Rightarrow> Some (Inr \<lparr>setCols = s, values = vs\<rparr>)
                | _ \<Rightarrow> None)
           | _ \<Rightarrow> None))"

subsection \<open>Delimited identifiers of SQL\<close>




section \<open>Properties\<close>

subsection \<open>Auxiliary facts\<close>

lemma decimal_digit: "n < 10 \<Longrightarrow> decimal n = [digit n]"
  by (simp add: decimal.simps)

lemma decimal_one: "decimal (Suc 0) = ''1''"
  by (simp add: decimal_digit digit_def)

lemma decimal_two: "decimal (Suc (Suc 0)) = ''2''"
  by (simp add: decimal_digit digit_def)

lemma one_elem: "length xs = Suc 0 \<Longrightarrow> xs = [xs ! 0]"
  by (cases xs) auto

lemma two_elems: "length xs = 2 \<Longrightarrow> xs = [xs ! 0, xs ! 1]"
  by (cases xs; cases "tl xs") auto

lemma decimal_three: "decimal 3 = ''3''"
  by (simp add: decimal_digit digit_def)

lemma three_elems: "length xs = 3 \<Longrightarrow> xs = [xs ! 0, xs ! 1, xs ! 2]"
  by (cases xs; cases "tl xs"; cases "tl (tl xs)") auto

lemma resolved_own: "jsToSql colName = Some c \<Longrightarrow> c \<noteq> [] \<Longrightarrow> resolved jsToSql colName = c"
  by (simp add: resolved_def)

lemma resolved_empty: "jsToSql colName = Some [] \<Longrightarrow> resolved jsToSql colName = colName"
  by (simp add: resolved_def)

lemma resolved_absent:
  "jsToSql colName = None \<Longrightarrow> Object_prototype colName = None \<Longrightarrow> resolved jsToSql colName = colName"
  by (simp add: resolved_def)

lemma cols_nth:
  "i < length keys \<Longrightarrow>
     map (\<lambda>(idx, colName). col jsToSql colName idx) (List.enumerate 0 keys) ! i = col jsToSql (keys ! i) i"
  by (simp add: nth_enumerate_eq)

lemma sqlForPartialUpdate_nonempty:
  "dataToUpdate \<noteq> [] \<Longrightarrow>
     sqlForPartialUpdate dataToUpdate jsToSql =
       Inr \<lparr>setCols = join '', '' (map (\<lambda>(idx, colName). col jsToSql colName idx)
                                   (List.enumerate 0 (map fst dataToUpdate))),
            values = map snd dataToUpdate\<rparr>"
  by (simp add: sqlForPartialUpdate_def Object_keys_def Object_values_def)

lemma sqlForPartialUpdate_empty:
  "sqlForPartialUpdate [] jsToSql = Inl (BadRequestError ''No data'')"
  by (simp add: sqlForPartialUpdate_def Object_keys_def)

lemma payload_lookup:
  "distinct (map fst obj) \<Longrightarrow> i < length obj \<Longrightarrow> map_of obj (fst (obj ! i)) = Some (snd (obj ! i))"
  by (metis map_of_eq_Some_iff nth_mem prod.collapse)

lemma col_cong:
  "jsToSql colName = jsToSql' colName \<Longrightarrow> col jsToSql colName idx = col jsToSql' colName idx"
  by (simp add: col_def resolved_def Object_prototype_def)

lemma enumerate_snd_mem: "(idx, x) \<in> set (List.enumerate n xs) \<Longrightarrow> x \<in> set xs"
  by (auto simp: in_set_enumerate_eq)

lemma cols_cong:
  assumes "\<forall>k \<in> set keys. jsToSql k = jsToSql' k"
  shows "map (\<lambda>(idx, colName). col jsToSql colName idx) (List.enumerate 0 keys) =
         map (\<lambda>(idx, colName). col jsToSql' colName idx) (List.enumerate 0 keys)"
proof (rule map_cong [OF refl])
  fix p assume p: "p \<in> set (List.enumerate 0 keys)"
  obtain idx colName where [simp]: "p = (idx, colName)" by (cases p)
  from p have "colName \<in> set keys" by (auto dest: enumerate_snd_mem)
  with assms have "jsToSql colName = jsToSql' colName" by blast
  then have "col jsToSql colName idx = col jsToSql' colName idx"
    by (rule col_cong)
  then show "(case p of (idx, colName) \<Rightarrow> col jsToSql colName idx) =
             (case p of (idx, colName) \<Rightarrow> col jsToSql' colName idx)"
    by simp
qed

lemma sqlForPartialUpdate_cong:
  assumes "\<forall>k \<in> set (Object_keys dataToUpdate). jsToSql k = jsToSql' k"
  shows "sqlForPartialUpdate dataToUpdate jsToSql = sqlForPartialUpdate dataToUpdate jsToSql'"
  unfolding sqlForPartialUpdate_def Let_def
  by (simp only: cols_cong [OF assms])

lemma cols_last:
  assumes "keys \<noteq> []"
  shows "last (map (\<lambda>(idx, colName). col jsToSql colName idx) (List.enumerate 0 keys)) =
         col jsToSql (last keys) (length keys - 1)"
proof -
  let ?cols = "map (\<lambda>(idx, colName). col jsToSql colName idx) (List.enumerate 0 keys)"
  have n: "length keys - 1 < length keys"
    using assms by simp
  have "?cols \<noteq> []"
    using assms by (cases keys) simp_all
  then have "last ?cols = ?cols ! (length ?cols - 1)"
    by (rule last_conv_nth)
  also have "\<dots> = ?cols ! (length keys - 1)"
    by simp
  also have "\<dots> = col jsToSql (keys ! (length keys - 1)) (length keys - 1)"
    using n by (rule cols_nth)
  also have "keys ! (length keys - 1) = last keys"
    using assms by (simp add: last_conv_nth)
  finally show ?thesis .
qed

lemma db_query_issued:
  "issued (snd (db_query exec text params db)) = issued db @ [(text, params)]"
  by (simp add: db_query_def Let_def split: prod.splits sum.splits)

lemma Company_update_issued:
  assumes "sqlForPartialUpdate data company_jsToSql = Inr frag"
  shows "issued (snd (Company_update exec ToString handle data db)) =
     issued db @ [(company_querySql (setCols frag) (''$'' @ decimal (length (values frag) + 1)),
                   values frag @ [handle])]"
proof -
  let ?q = "db_query exec (company_querySql (setCols frag) (''$'' @ decimal (length (values frag) + 1)))
              (values frag @ [handle]) db"
  have "snd (Company_update exec ToString handle data db) = snd ?q"
    using assms by (simp add: Company_update_def Let_def split: prod.splits sum.splits list.splits)
  then show ?thesis
    by (simp add: db_query_issued)
qed

lemma Job_update_issued:
  assumes "sqlForPartialUpdate data job_jsToSql = Inr frag"
  shows "issued (snd (Job_update exec ToString id' data db)) =
     issued db @ [(job_querySql (setCols frag) (''$'' @ decimal (length (values frag) + 1)),
                   values frag @ [id'])]"
proof -
  let ?q = "db_query exec (job_querySql (setCols frag) (''$'' @ decimal (length (values frag) + 1)))
              (values frag @ [id']) db"
  have "snd (Job_update exec ToString id' data db) = snd ?q"
    using assms by (simp add: Job_update_def Let_def split: prod.splits sum.splits list.splits)
  then show ?thesis
    by (simp add: db_query_issued)
qed

lemma sqlForPartialUpdate_last_col:
  assumes "data \<noteq> []"
  shows \<open>\<exists>cols.
     length cols = length data \<and>
     last cols = ''"'' @ resolved jsToSql (last (Object_keys data)) @ ''"=$'' @ decimal (length data) \<and>
     sqlForPartialUpdate data jsToSql =
       Inr \<lparr>setCols = join '', '' cols, values = Object_values data\<rparr>\<close>
proof -
  let ?cols = "map (\<lambda>(idx, colName). col jsToSql colName idx) (List.enumerate 0 (Object_keys data))"
  have keys: "Object_keys data \<noteq> []" "length (Object_keys data) = length data"
    using assms by (simp_all add: Object_keys_def)
  have "last ?cols = col jsToSql (last (Object_keys data)) (length data - 1)"
    using cols_last [OF keys(1), of jsToSql] keys(2) by simp
  moreover have "length data - 1 + 1 = length data"
    using assms by (cases data) simp_all
  ultimately have \<open>last ?cols =
      ''"'' @ resolved jsToSql (last (Object_keys data)) @ ''"=$'' @ decimal (length data)\<close>
    by (simp add: col_def)
  moreover have "length ?cols = length data"
    using keys(2) by simp
  moreover have "sqlForPartialUpdate data jsToSql =
       Inr \<lparr>setCols = join '', '' ?cols, values = Object_values data\<rparr>"
    using assms by (simp add: sqlForPartialUpdate_nonempty Object_keys_def Object_values_def)
  ultimately show ?thesis
    by blast
qed

lemma deref_old: "heap w' = heap w @ cs \<Longrightarrow> a < length (heap w) \<Longrightarrow> deref w' a = deref w a"
  by (simp add: deref_def nth_append)

lemma deref_valid: "deref w a = Some c \<Longrightarrow> a < length (heap w)"
  by (simp add: deref_def split: if_splits)

lemma sqlForPartialUpdate_refs_empty:
  assumes "deref w dataToUpdate = Some (Object_cell [])"
    and "deref w jsToSql = Some (Table_cell table)"
  shows "sqlForPartialUpdate_refs dataToUpdate jsToSql w =
     Some (Inl (BadRequestError ''No data''), w\<lparr>heap := heap w @ [Strings_cell []]\<rparr>)"
  using assms by (simp add: sqlForPartialUpdate_refs_def alloc_def Object_keys_def)

lemma sqlForPartialUpdate_refs_nonempty:
  assumes "deref w dataToUpdate = Some (Object_cell obj)"
    and "deref w jsToSql = Some (Table_cell table)"
    and "obj \<noteq> []"
  shows "sqlForPartialUpdate_refs dataToUpdate jsToSql w =
     Some (Inr (length (heap w) + 3),
           w\<lparr>heap := heap w @
              [Strings_cell (Object_keys obj),
               Strings_cell (map (\<lambda>(idx, colName). col table colName idx)
                               (List.enumerate 0 (Object_keys obj))),
               Values_cell (Object_values obj),
               Fragment_cell (join '', '' (map (\<lambda>(idx, colName). col table colName idx)
                                               (List.enumerate 0 (Object_keys obj))))
                             (length (heap w) + 2)]\<rparr>)"
  using assms by (simp add: sqlForPartialUpdate_refs_def alloc_def Object_keys_def Let_def)

lemma sqlForPartialUpdate_refs_outcome:
  assumes "deref w dataToUpdate = Some (Object_cell obj)"
    and "deref w jsToSql = Some (Table_cell table)"
  shows "\<exists>r w'. sqlForPartialUpdate_refs dataToUpdate jsToSql w = Some (r, w') \<and>
       outcome w' r = Some (sqlForPartialUpdate obj table)"
proof (cases "obj = []")
  case True
  let ?w = "w\<lparr>heap := heap w @ [Strings_cell []]\<rparr>"
  have "sqlForPartialUpdate_refs dataToUpdate jsToSql w = Some (Inl (BadRequestError ''No data''), ?w)"
    using assms True by (simp add: sqlForPartialUpdate_refs_empty)
  moreover have "outcome ?w (Inl (BadRequestError ''No data'')) = Some (sqlForPartialUpdate obj table)"
    using True by (simp add: outcome_def sqlForPartialUpdate_empty)
  ultimately show ?thesis
    by blast
next
  case False
  let ?cs = "map (\<lambda>(idx, colName). col table colName idx) (List.enumerate 0 (Object_keys obj))"
  let ?new = "[Strings_cell (Object_keys obj), Strings_cell ?cs, Values_cell (Object_values obj),
               Fragment_cell (join '', '' ?cs) (length (heap w) + 2)]"
  let ?w = "w\<lparr>heap := heap w @ ?new\<rparr>"
  have run: "sqlForPartialUpdate_refs dataToUpdate jsToSql w = Some (Inr (length (heap w) + 3), ?w)"
    using assms False by (simp add: sqlForPartialUpdate_refs_nonempty)
  have "deref ?w (length (heap w) + 3) = Some (Fragment_cell (join '', '' ?cs) (length (heap w) + 2))"
    by (simp add: deref_def nth_append)
  moreover have "deref ?w (length (heap w) + 2) = Some (Values_cell (Object_values obj))"
    by (simp add: deref_def nth_append)
  ultimately have "outcome ?w (Inr (length (heap w) + 3)) =
      Some (Inr \<lparr>setCols = join '', '' ?cs, values = Object_values obj\<rparr>)"
    by (simp add: outcome_def)
  also have "Inr \<lparr>setCols = join '', '' ?cs, values = Object_values obj\<rparr> = sqlForPartialUpdate obj table"
    using False by (simp add: sqlForPartialUpdate_def Object_keys_def Let_def)
  finally have "outcome ?w (Inr (length (heap w) + 3)) = Some (sqlForPartialUpdate obj table)" .
  with run show ?thesis
    by blast
qed






subsection \<open>Ordering\<close>

text \<open>
  Claim C1. For a non-empty payload whose keys are \<open>k\<^sub>1, \<dots>, k\<^sub>n\<close> in iteration order, the
  call succeeds; the returned \<open>values\<close> are the payload's values in that order, as many
  as there are keys; \<open>setCols\<close> is the list of terms joined by a comma and a space, one
  term per key in the same order, the term at (0-based) index \<open>i\<close> carrying the
  placeholder \<open>$(i + 1)\<close>. With pairwise distinct keys, which every object has, the
  value at index \<open>i\<close> is the payload's value of the key at index \<open>i\<close>.
\<close>

theorem sqlForPartialUpdate_ordering:
  assumes "dataToUpdate \<noteq> []"
  shows \<open>\<exists>cols.
      sqlForPartialUpdate dataToUpdate jsToSql =
        Inr \<lparr>setCols = join '', '' cols, values = map snd dataToUpdate\<rparr> \<and>
      length cols = length dataToUpdate \<and>
      length (map snd dataToUpdate) = length (Object_keys dataToUpdate) \<and>
      (\<forall>i < length dataToUpdate.
          cols ! i = ''"'' @ resolved jsToSql (Object_keys dataToUpdate ! i) @ ''"=$'' @ decimal (i + 1) \<and>
          (distinct (Object_keys dataToUpdate) \<longrightarrow>
             map_of dataToUpdate (Object_keys dataToUpdate ! i) = Some (map snd dataToUpdate ! i)))\<close>
proof -
  let ?cols = "map (\<lambda>(idx, colName). col jsToSql colName idx) (List.enumerate 0 (map fst dataToUpdate))"
  have out: "sqlForPartialUpdate dataToUpdate jsToSql =
      Inr \<lparr>setCols = join '', '' ?cols, values = map snd dataToUpdate\<rparr>"
    using assms by (rule sqlForPartialUpdate_nonempty)
  have len: "length ?cols = length dataToUpdate"
    by simp
  have terms: \<open>?cols ! i = ''"'' @ resolved jsToSql (Object_keys dataToUpdate ! i) @ ''"=$'' @ decimal (i + 1)\<close>
    if "i < length dataToUpdate" for i
    using that cols_nth [of i "map fst dataToUpdate" jsToSql]
    by (simp add: col_def Object_keys_def)
  have vals: "map_of dataToUpdate (Object_keys dataToUpdate ! i) = Some (map snd dataToUpdate ! i)"
    if "i < length dataToUpdate" "distinct (Object_keys dataToUpdate)" for i
    using that payload_lookup [of dataToUpdate i] by (simp add: Object_keys_def)
  show ?thesis
    using out len terms vals by (intro exI [of _ ?cols]) (simp add: Object_keys_def)
qed

text \<open>
  The example of \<^verbatim>\<open>helpers/sql.js\<close>, obtained from the theorem.
\<close>

theorem sqlForPartialUpdate_ordering_witness:
  \<open>[(''firstName'', Inl ''Aliya''), (''age'', Inr (32::int))] \<noteq> [] \<and>
   sqlForPartialUpdate [(''firstName'', Inl ''Aliya''), (''age'', Inr (32::int))]
       [''firstName'' \<mapsto> ''first_name''] =
     Inr \<lparr>setCols = ''"first_name"=$1, "age"=$2'', values = [Inl ''Aliya'', Inr 32]\<rparr>\<close>
proof -
  let ?d = "[(''firstName'', Inl ''Aliya''), (''age'', Inr (32::int))] :: (string \<times> (string + int)) list"
  let ?t = "[''firstName'' \<mapsto> ''first_name'']"
  have ne: "?d \<noteq> []" by simp
  from sqlForPartialUpdate_ordering [OF ne, of ?t] obtain cols where
    out: "sqlForPartialUpdate ?d ?t = Inr \<lparr>setCols = join '', '' cols, values = map snd ?d\<rparr>"
    and len: "length cols = length ?d"
    and ith: \<open>\<forall>i < length ?d.
          cols ! i = ''"'' @ resolved ?t (Object_keys ?d ! i) @ ''"=$'' @ decimal (i + 1) \<and>
          (distinct (Object_keys ?d) \<longrightarrow>
             map_of ?d (Object_keys ?d ! i) = Some (map snd ?d ! i))\<close>
    by blast
  have c0: \<open>cols ! 0 = ''"first_name"=$1''\<close>
    using ith [rule_format, of 0] by (simp add: resolved_def Object_prototype_def Object_keys_def decimal_one)
  have c1: \<open>cols ! 1 = ''"age"=$2''\<close>
    using ith [rule_format, of 1] by (simp add: resolved_def Object_prototype_def Object_keys_def decimal_two)
  have "cols = [cols ! 0, cols ! 1]"
    using len by (intro two_elems) simp
  then have \<open>cols = [''"first_name"=$1'', ''"age"=$2'']\<close>
    using c0 c1 by simp
  then show ?thesis using out by simp
qed

subsection \<open>Translation\<close>

text \<open>
  Claim C2, as amended. For a non-empty payload and any table, the term of the key \<open>k\<close> at
  index \<open>i\<close> is \<open>"c"=$(i + 1)\<close> when the table has for \<open>k\<close> a non-empty column name \<open>c\<close>,
  and \<open>"k"=$(i + 1)\<close> when the table has for \<open>k\<close> the empty string, or has nothing for
  \<open>k\<close> and \<open>k\<close> is not the name of a member of \<^verbatim>\<open>Object.prototype\<close>; so with an empty
  table every such key keeps its own name. In each case the name stands between
  double quotes.
\<close>

theorem sqlForPartialUpdate_translation:
  assumes "dataToUpdate \<noteq> []"
  shows \<open>\<exists>cols.
      sqlForPartialUpdate dataToUpdate jsToSql =
        Inr \<lparr>setCols = join '', '' cols, values = Object_values dataToUpdate\<rparr> \<and>
      length cols = length (Object_keys dataToUpdate) \<and>
      (\<forall>i < length (Object_keys dataToUpdate).
          (\<forall>c. jsToSql (Object_keys dataToUpdate ! i) = Some c \<and> c \<noteq> [] \<longrightarrow>
             cols ! i = ''"'' @ c @ ''"=$'' @ decimal (i + 1)) \<and>
          (jsToSql (Object_keys dataToUpdate ! i) = Some [] \<or>
           jsToSql (Object_keys dataToUpdate ! i) = None \<and>
           Object_prototype (Object_keys dataToUpdate ! i) = None \<longrightarrow>
             cols ! i = ''"'' @ Object_keys dataToUpdate ! i @ ''"=$'' @ decimal (i + 1)))\<close>
proof -
  let ?keys = "Object_keys dataToUpdate"
  let ?cols = "map (\<lambda>(idx, colName). col jsToSql colName idx) (List.enumerate 0 ?keys)"
  have out: "sqlForPartialUpdate dataToUpdate jsToSql =
      Inr \<lparr>setCols = join '', '' ?cols, values = Object_values dataToUpdate\<rparr>"
    using assms by (simp add: sqlForPartialUpdate_nonempty Object_keys_def Object_values_def)
  have len: "length ?cols = length ?keys"
    by simp
  have ith: "?cols ! i = col jsToSql (?keys ! i) i" if "i < length ?keys" for i
    using that by (rule cols_nth)
  have present: \<open>?cols ! i = ''"'' @ c @ ''"=$'' @ decimal (i + 1)\<close>
    if "i < length ?keys" "jsToSql (?keys ! i) = Some c" "c \<noteq> []" for i c
  proof -
    have "?cols ! i = col jsToSql (?keys ! i) i"
      using that(1) by (rule ith)
    also have \<open>\<dots> = ''"'' @ c @ ''"=$'' @ decimal (i + 1)\<close>
      using that(2,3) by (simp add: col_def resolved_own)
    finally show ?thesis .
  qed
  have verbatim: \<open>?cols ! i = ''"'' @ ?keys ! i @ ''"=$'' @ decimal (i + 1)\<close>
    if "i < length ?keys"
      "jsToSql (?keys ! i) = Some [] \<or>
       jsToSql (?keys ! i) = None \<and> Object_prototype (?keys ! i) = None" for i
  proof -
    have "?cols ! i = col jsToSql (?keys ! i) i"
      using that(1) by (rule ith)
    also have \<open>\<dots> = ''"'' @ ?keys ! i @ ''"=$'' @ decimal (i + 1)\<close>
      using that(2) by (auto simp: col_def resolved_empty resolved_absent)
    finally show ?thesis .
  qed
  show ?thesis
    using out len present verbatim by (intro exI [of _ ?cols]) blast
qed

text \<open>
  A table entry that is used, one that holds the empty string and is not, and a key for
  which the table has nothing.
\<close>

theorem sqlForPartialUpdate_translation_witness:
  \<open>[(''numEmployees'', 10::int), (''name'', 7), (''description'', 3)] \<noteq> [] \<and>
   sqlForPartialUpdate [(''numEmployees'', 10::int), (''name'', 7), (''description'', 3)]
       [''numEmployees'' \<mapsto> ''num_employees'', ''name'' \<mapsto> ''''] =
     Inr \<lparr>setCols = ''"num_employees"=$1, "name"=$2, "description"=$3'', values = [10, 7, 3]\<rparr>\<close>
proof -
  let ?d = "[(''numEmployees'', 10::int), (''name'', 7), (''description'', 3)]"
  let ?t = "[''numEmployees'' \<mapsto> ''num_employees'', ''name'' \<mapsto> '''']"
  have ne: "?d \<noteq> []" by simp
  from sqlForPartialUpdate_translation [OF ne, of ?t] obtain cols where
    out: "sqlForPartialUpdate ?d ?t = Inr \<lparr>setCols = join '', '' cols, values = Object_values ?d\<rparr>"
    and len: "length cols = length (Object_keys ?d)"
    and ith: \<open>\<forall>i < length (Object_keys ?d).
          (\<forall>c. ?t (Object_keys ?d ! i) = Some c \<and> c \<noteq> [] \<longrightarrow>
             cols ! i = ''"'' @ c @ ''"=$'' @ decimal (i + 1)) \<and>
          (?t (Object_keys ?d ! i) = Some [] \<or>
           ?t (Object_keys ?d ! i) = None \<and> Object_prototype (Object_keys ?d ! i) = None \<longrightarrow>
             cols ! i = ''"'' @ Object_keys ?d ! i @ ''"=$'' @ decimal (i + 1))\<close>
    by blast
  have c0: \<open>cols ! 0 = ''"num_employees"=$1''\<close>
    using ith [rule_format, of 0, THEN conjunct1, rule_format, of "''num_employees''"]
    by (simp add: Object_keys_def decimal_one)
  have c1: \<open>cols ! 1 = ''"name"=$2''\<close>
    using ith [rule_format, of 1, THEN conjunct2]
    by (simp add: Object_keys_def decimal_two)
  have c2: \<open>cols ! 2 = ''"description"=$3''\<close>
    using ith [rule_format, of 2, THEN conjunct2]
    by (simp add: Object_keys_def Object_prototype_def decimal_three)
  have "cols = [cols ! 0, cols ! 1, cols ! 2]"
    using len by (intro three_elems) (simp add: Object_keys_def)
  then have \<open>cols = [''"num_employees"=$1'', ''"name"=$2'', ''"description"=$3'']\<close>
    using c0 c1 c2 by simp
  then show ?thesis using out by (simp add: Object_values_def)
qed

text \<open>
  Claim C2 as first stated lets the term use the table's entry whenever the key is
  present in the table, and the key itself whenever it is absent. The key \<open>a\<close> below is
  present, with the empty string; the operator \<^verbatim>\<open>||\<close> passes it over, and the term
  names the column \<open>a\<close>. The key \<open>constructor\<close> is absent from the empty table; the
  property read finds the inherited \<^verbatim>\<open>Object.prototype.constructor\<close>, and the term names
  neither an entry of the table nor the key.
\<close>

theorem sqlForPartialUpdate_translation_counterexample:
  \<open>[''a'' \<mapsto> ''''] ''a'' = Some '''' \<and>
   sqlForPartialUpdate [(''a'', True)] [''a'' \<mapsto> ''''] =
     Inr \<lparr>setCols = ''"a"=$1'', values = [True]\<rparr> \<and>
   sqlForPartialUpdate [(''a'', True)] [''a'' \<mapsto> ''''] \<noteq>
     Inr \<lparr>setCols = ''""=$1'', values = [True]\<rparr> \<and>
   Map.empty ''constructor'' = (None :: string option) \<and>
   sqlForPartialUpdate [(''constructor'', True)] Map.empty =
     Inr \<lparr>setCols = ''"function Object() { [native code] }"=$1'', values = [True]\<rparr> \<and>
   sqlForPartialUpdate [(''constructor'', True)] Map.empty \<noteq>
     Inr \<lparr>setCols = ''"constructor"=$1'', values = [True]\<rparr>\<close>
  by (simp add: sqlForPartialUpdate_def Object_keys_def Object_values_def
      col_def resolved_def Object_prototype_def native_function_def decimal_one)

subsection \<open>Empty payload\<close>

text \<open>
  Claim C3. With an empty payload the call fails with \<open>BadRequestError\<close> and the message
  \<^verbatim>\<open>No data\<close>, whatever the table; it returns no fragment. The payload being empty is
  the only way for the call to fail.
\<close>

theorem sqlForPartialUpdate_empty_payload:
  "sqlForPartialUpdate [] jsToSql = Inl (BadRequestError ''No data'') \<and>
   (\<nexists>frag. sqlForPartialUpdate [] jsToSql = Inr frag) \<and>
   (isl (sqlForPartialUpdate dataToUpdate jsToSql) \<longleftrightarrow> dataToUpdate = [])"
proof -
  have "isl (sqlForPartialUpdate dataToUpdate jsToSql) \<longleftrightarrow> dataToUpdate = []"
    by (simp add: sqlForPartialUpdate_def Object_keys_def Let_def)
  then show ?thesis
    by (simp add: sqlForPartialUpdate_empty)
qed

text \<open>
  The call of the test \<^verbatim>\<open>throws error if no data\<close>, and one with a table that has an entry.
\<close>

theorem sqlForPartialUpdate_empty_payload_witness:
  "sqlForPartialUpdate ([] :: (string \<times> int) list) Map.empty = Inl (BadRequestError ''No data'') \<and>
   sqlForPartialUpdate ([] :: (string \<times> int) list) [''firstName'' \<mapsto> ''first_name''] =
     Inl (BadRequestError ''No data'')"
  using sqlForPartialUpdate_empty_payload [of Map.empty "[] :: (string \<times> int) list", THEN conjunct1]
    sqlForPartialUpdate_empty_payload
      [of "[''firstName'' \<mapsto> ''first_name'']" "[] :: (string \<times> int) list", THEN conjunct1]
  by simp

subsection \<open>The clause does not depend on the values\<close>

text \<open>
  Claim C4. Two payloads with the same keys in the same order, with any values of any
  types, give the same outcome up to the \<open>values\<close> field: the same error, or the same
  string \<open>setCols\<close>.
\<close>

theorem sqlForPartialUpdate_values_independent:
  fixes dataToUpdate :: "(string \<times> 'v) list" and dataToUpdate' :: "(string \<times> 'w) list"
  assumes "Object_keys dataToUpdate = Object_keys dataToUpdate'"
  shows "map_sum id setCols (sqlForPartialUpdate dataToUpdate jsToSql) =
         map_sum id setCols (sqlForPartialUpdate dataToUpdate' jsToSql)"
proof (cases "dataToUpdate = []")
  case True
  with assms have "dataToUpdate' = []" by (simp add: Object_keys_def)
  with True show ?thesis by (simp add: sqlForPartialUpdate_empty)
next
  case False
  with assms have "dataToUpdate' \<noteq> []" by (auto simp: Object_keys_def)
  with False assms show ?thesis
    by (simp add: sqlForPartialUpdate_nonempty Object_keys_def)
qed

text \<open>
  A string and a number under the same key.
\<close>

theorem sqlForPartialUpdate_values_independent_witness:
  \<open>Object_keys [(''title'', ''New'')] = Object_keys [(''title'', 230000::int)] \<and>
   map_sum id setCols (sqlForPartialUpdate [(''title'', ''New'')] Map.empty) = Inr ''"title"=$1'' \<and>
   map_sum id setCols (sqlForPartialUpdate [(''title'', 230000::int)] Map.empty) = Inr ''"title"=$1''\<close>
proof -
  have keys: "Object_keys [(''title'', ''New'')] = Object_keys [(''title'', 230000::int)]"
    by (simp add: Object_keys_def)
  have one: \<open>map_sum id setCols (sqlForPartialUpdate [(''title'', ''New'')] Map.empty) = Inr ''"title"=$1''\<close>
    by (simp add: sqlForPartialUpdate_def Object_keys_def Object_values_def
        col_def resolved_def Object_prototype_def decimal_one)
  show ?thesis
    using keys one sqlForPartialUpdate_values_independent [OF keys, of Map.empty] by simp
qed

subsection \<open>Determinism\<close>

text \<open>
  Claim C5. Take two calls, each made in a state of its own: the heaps may hold other
  objects, the arguments may sit at other references, and the databases may differ.
  When the two payloads have the same keys and the same values in the same order and
  the two tables have the same entry for every key, both calls return, and what they
  return, read back from the heap, is the same: the same error, or fragments with the
  same \<open>setCols\<close> and the same \<open>values\<close>. Nothing but the payload and the table bears
  on the result.
\<close>

theorem sqlForPartialUpdate_deterministic:
  assumes "deref w dataToUpdate = Some (Object_cell obj)"
    and "deref w jsToSql = Some (Table_cell table)"
    and "deref w' dataToUpdate' = Some (Object_cell obj')"
    and "deref w' jsToSql' = Some (Table_cell table')"
    and "Object_keys obj = Object_keys obj'"
    and "Object_values obj = Object_values obj'"
    and "\<forall>k. table k = table' k"
  shows "\<exists>r v r' v' res.
      sqlForPartialUpdate_refs dataToUpdate jsToSql w = Some (r, v) \<and>
      sqlForPartialUpdate_refs dataToUpdate' jsToSql' w' = Some (r', v') \<and>
      outcome v r = Some res \<and> outcome v' r' = Some res"
proof -
  have "obj = obj'"
    using assms(5,6) unfolding Object_keys_def Object_values_def by (rule pair_list_eqI)
  moreover have "table = table'"
    using assms(7) by (simp add: fun_eq_iff)
  ultimately have same: "sqlForPartialUpdate obj' table' = sqlForPartialUpdate obj table"
    by simp
  from sqlForPartialUpdate_refs_outcome [OF assms(1,2)] obtain r v where
    one: "sqlForPartialUpdate_refs dataToUpdate jsToSql w = Some (r, v)"
      "outcome v r = Some (sqlForPartialUpdate obj table)"
    by blast
  from sqlForPartialUpdate_refs_outcome [OF assms(3,4)] obtain r' v' where
    two: "sqlForPartialUpdate_refs dataToUpdate' jsToSql' w' = Some (r', v')"
      "outcome v' r' = Some (sqlForPartialUpdate obj' table')"
    by blast
  from one two same show ?thesis
    by auto
qed

text \<open>
  Two heaps that hold the payload and the table at different places, the second with
  a further object and a database that has already been sent a statement; the two
  tables are built differently and map every key alike.
\<close>

theorem sqlForPartialUpdate_deterministic_witness:
  \<open>\<exists>r v r' v'.
     sqlForPartialUpdate_refs 0 1
       \<lparr>heap = [Object_cell [(''age'', 32::int)], Table_cell [''age'' \<mapsto> ''age_col'']],
        database = \<lparr>store = False, issued = []\<rparr>\<rparr> = Some (r, v) \<and>
     sqlForPartialUpdate_refs 2 1
       \<lparr>heap = [Strings_cell [''x''], Table_cell [''age'' \<mapsto> ''years'', ''age'' \<mapsto> ''age_col''],
                Object_cell [(''age'', 32::int)]],
        database = \<lparr>store = True, issued = [(''SELECT 1'', [])]\<rparr>\<rparr> = Some (r', v') \<and>
     outcome v r = Some (Inr \<lparr>setCols = ''"age_col"=$1'', values = [32]\<rparr>) \<and>
     outcome v' r' = Some (Inr \<lparr>setCols = ''"age_col"=$1'', values = [32]\<rparr>)\<close>
proof -
  let ?w = "\<lparr>heap = [Object_cell [(''age'', 32::int)], Table_cell [''age'' \<mapsto> ''age_col'']],
        database = \<lparr>store = False, issued = []\<rparr>\<rparr>"
  let ?w' = "\<lparr>heap = [Strings_cell [''x''], Table_cell [''age'' \<mapsto> ''years'', ''age'' \<mapsto> ''age_col''],
                Object_cell [(''age'', 32::int)]],
        database = \<lparr>store = True, issued = [(''SELECT 1'', [])]\<rparr>\<rparr>"
  have a: "deref ?w 0 = Some (Object_cell [(''age'', 32)])"
    by (simp add: deref_def)
  have b: "deref ?w 1 = Some (Table_cell [''age'' \<mapsto> ''age_col''])"
    by (simp add: deref_def)
  have c: "deref ?w' 2 = Some (Object_cell [(''age'', 32)])"
    by (simp add: deref_def)
  have d: "deref ?w' 1 = Some (Table_cell [''age'' \<mapsto> ''years'', ''age'' \<mapsto> ''age_col''])"
    by (simp add: deref_def)
  have e: "\<forall>k. [''age'' \<mapsto> ''age_col''] k = [''age'' \<mapsto> ''years'', ''age'' \<mapsto> ''age_col''] k"
    by simp
  from sqlForPartialUpdate_deterministic [OF a b c d refl refl e] obtain r v r' v' res where
    run: "sqlForPartialUpdate_refs 0 1 ?w = Some (r, v)"
      "sqlForPartialUpdate_refs 2 1 ?w' = Some (r', v')"
    and res: "outcome v r = Some res" "outcome v' r' = Some res"
    by blast
  have \<open>sqlForPartialUpdate_refs 0 1 ?w =
      Some (Inr 5, ?w\<lparr>heap := heap ?w @
        [Strings_cell [''age''], Strings_cell [''"age_col"=$1''], Values_cell [32],
         Fragment_cell ''"age_col"=$1'' 4]\<rparr>)\<close>
    using sqlForPartialUpdate_refs_nonempty [OF a b]
    by (simp add: Object_keys_def Object_values_def col_def resolved_def Object_prototype_def decimal_one)
  with run(1) have \<open>outcome v r = Some (Inr \<lparr>setCols = ''"age_col"=$1'', values = [32]\<rparr>)\<close>
    by (auto simp: outcome_def deref_def)
  with res have \<open>res = Inr \<lparr>setCols = ''"age_col"=$1'', values = [32]\<rparr>\<close>
    by simp
  with run res show ?thesis
    by blast
qed

subsection \<open>Table entries outside the payload\<close>

text \<open>
  Claim C9. Two tables that agree on the keys of the payload give the same result; in
  particular the result is that of the table restricted to the payload's keys.
\<close>

theorem sqlForPartialUpdate_table_restriction:
  "((\<forall>k \<in> set (Object_keys dataToUpdate). jsToSql k = jsToSql' k) \<longrightarrow>
     sqlForPartialUpdate dataToUpdate jsToSql = sqlForPartialUpdate dataToUpdate jsToSql') \<and>
   sqlForPartialUpdate dataToUpdate jsToSql =
     sqlForPartialUpdate dataToUpdate (jsToSql |` set (Object_keys dataToUpdate))"
proof (rule conjI)
  show "(\<forall>k \<in> set (Object_keys dataToUpdate). jsToSql k = jsToSql' k) \<longrightarrow>
     sqlForPartialUpdate dataToUpdate jsToSql = sqlForPartialUpdate dataToUpdate jsToSql'"
    by (rule impI) (rule sqlForPartialUpdate_cong)
  have "\<forall>k \<in> set (Object_keys dataToUpdate).
          jsToSql k = (jsToSql |` set (Object_keys dataToUpdate)) k"
    by simp
  then show "sqlForPartialUpdate dataToUpdate jsToSql =
     sqlForPartialUpdate dataToUpdate (jsToSql |` set (Object_keys dataToUpdate))"
    by (rule sqlForPartialUpdate_cong)
qed

text \<open>
  An entry for a key that the payload does not have changes nothing.
\<close>

theorem sqlForPartialUpdate_table_restriction_witness:
  \<open>set (Object_keys [(''age'', 32::int)]) = {''age''} \<and>
   [''firstName'' \<mapsto> ''first_name''] ''age'' = Map.empty ''age'' \<and>
   sqlForPartialUpdate [(''age'', 32::int)] [''firstName'' \<mapsto> ''first_name''] =
     Inr \<lparr>setCols = ''"age"=$1'', values = [32]\<rparr>\<close>
proof -
  have keys: "set (Object_keys [(''age'', 32::int)]) = {''age''}"
    by (simp add: Object_keys_def)
  have agree: "\<forall>k \<in> set (Object_keys [(''age'', 32::int)]).
       [''firstName'' \<mapsto> ''first_name''] k = Map.empty k"
    by (simp add: Object_keys_def)
  have "sqlForPartialUpdate [(''age'', 32::int)] [''firstName'' \<mapsto> ''first_name''] =
        sqlForPartialUpdate [(''age'', 32::int)] Map.empty"
    using sqlForPartialUpdate_table_restriction
      [of "[(''age'', 32::int)]" "[''firstName'' \<mapsto> ''first_name'']" Map.empty,
       THEN conjunct1, THEN mp, OF agree] .
  also have \<open>\<dots> = Inr \<lparr>setCols = ''"age"=$1'', values = [32]\<rparr>\<close>
    by (simp add: sqlForPartialUpdate_def Object_keys_def Object_values_def
        col_def resolved_def Object_prototype_def decimal_one)
  finally show ?thesis using keys by simp
qed

subsection \<open>The placeholder of the primary key\<close>

text \<open>
  Claim C6. For a payload of \<open>n > 0\<close> keys, \<^verbatim>\<open>Company.update\<close> and \<^verbatim>\<open>Job.update\<close> send
  exactly one statement. Its text is the template with the compiler's \<open>setCols\<close> after
  \<^verbatim>\<open>SET\<close> and with \<open>$(n + 1)\<close> in the predicate on the primary key, the last term of
  the compiler carrying \<open>$n\<close>. Its parameter array is the compiler's \<open>n\<close> values in
  order, followed by the key, which so stands at (0-based) index \<open>n\<close>.
\<close>

theorem update_key_placeholder:
  assumes "data \<noteq> []"
  shows \<open>(\<exists>cols.
      length cols = length data \<and>
      last cols = ''"'' @ resolved company_jsToSql (last (Object_keys data)) @ ''"=$'' @
                  decimal (length data) \<and>
      sqlForPartialUpdate data company_jsToSql =
        Inr \<lparr>setCols = join '', '' cols, values = Object_values data\<rparr> \<and>
      issued (snd (Company_update exec ToString handle data db)) =
        issued db @
        [(''UPDATE companies '' @ newline @
          ''                      SET '' @ join '', '' cols @ '' '' @ newline @
          ''                      WHERE handle = $'' @ decimal (length data + 1) @ '' '' @ newline @
          ''                      RETURNING handle, '' @ newline @
          ''                                name, '' @ newline @
          ''                                description, '' @ newline @
          ''                                num_employees AS "numEmployees", '' @ newline @
          ''                                logo_url AS "logoUrl"'',
          Object_values data @ [handle])]) \<and>
    (\<exists>cols.
      length cols = length data \<and>
      last cols = ''"'' @ resolved job_jsToSql (last (Object_keys data)) @ ''"=$'' @
                  decimal (length data) \<and>
      sqlForPartialUpdate data job_jsToSql =
        Inr \<lparr>setCols = join '', '' cols, values = Object_values data\<rparr> \<and>
      issued (snd (Job_update exec ToString id' data db)) =
        issued db @
        [(''UPDATE jobs '' @ newline @
          ''                      SET '' @ join '', '' cols @ '' '' @ newline @
          ''                      WHERE id = $'' @ decimal (length data + 1) @ '' '' @ newline @
          ''                      RETURNING id, '' @ newline @
          ''                                title, '' @ newline @
          ''                                salary, '' @ newline @
          ''                                equity AS "equity", '' @ newline @
          ''                                company_handle AS "companyHandle"'',
          Object_values data @ [id'])]) \<and>
    length (Object_values data) = length data \<and>
    (Object_values data @ [handle]) ! length data = handle \<and>
    (Object_values data @ [id']) ! length data = id'\<close>
proof (intro conjI)
  have len: "length (Object_values data) = length data"
    by (simp add: Object_values_def)
  show "length (Object_values data) = length data"
    by (rule len)
  show "(Object_values data @ [handle]) ! length data = handle"
    using len by (metis nth_append_length)
  show "(Object_values data @ [id']) ! length data = id'"
    using len by (metis nth_append_length)
  from sqlForPartialUpdate_last_col [OF assms, of company_jsToSql] obtain cols where
    c: "length cols = length data"
      \<open>last cols = ''"'' @ resolved company_jsToSql (last (Object_keys data)) @ ''"=$'' @
                   decimal (length data)\<close>
      "sqlForPartialUpdate data company_jsToSql =
         Inr \<lparr>setCols = join '', '' cols, values = Object_values data\<rparr>"
    by blast
  have "issued (snd (Company_update exec ToString handle data db)) =
      issued db @ [(company_querySql (join '', '' cols) (''$'' @ decimal (length data + 1)),
                    Object_values data @ [handle])]"
    using Company_update_issued [OF c(3), of exec ToString handle db] len by simp
  with c show \<open>\<exists>cols.
      length cols = length data \<and>
      last cols = ''"'' @ resolved company_jsToSql (last (Object_keys data)) @ ''"=$'' @
                  decimal (length data) \<and>
      sqlForPartialUpdate data company_jsToSql =
        Inr \<lparr>setCols = join '', '' cols, values = Object_values data\<rparr> \<and>
      issued (snd (Company_update exec ToString handle data db)) =
        issued db @
        [(''UPDATE companies '' @ newline @
          ''                      SET '' @ join '', '' cols @ '' '' @ newline @
          ''                      WHERE handle = $'' @ decimal (length data + 1) @ '' '' @ newline @
          ''                      RETURNING handle, '' @ newline @
          ''                                name, '' @ newline @
          ''                                description, '' @ newline @
          ''                                num_employees AS "numEmployees", '' @ newline @
          ''                                logo_url AS "logoUrl"'',
          Object_values data @ [handle])]\<close>
    by (intro exI [of _ cols]) (simp add: company_querySql_def)
  from sqlForPartialUpdate_last_col [OF assms, of job_jsToSql] obtain cols where
    j: "length cols = length data"
      \<open>last cols = ''"'' @ resolved job_jsToSql (last (Object_keys data)) @ ''"=$'' @
                   decimal (length data)\<close>
      "sqlForPartialUpdate data job_jsToSql =
         Inr \<lparr>setCols = join '', '' cols, values = Object_values data\<rparr>"
    by blast
  have "issued (snd (Job_update exec ToString id' data db)) =
      issued db @ [(job_querySql (join '', '' cols) (''$'' @ decimal (length data + 1)),
                    Object_values data @ [id'])]"
    using Job_update_issued [OF j(3), of exec ToString id' db] len by simp
  with j show \<open>\<exists>cols.
      length cols = length data \<and>
      last cols = ''"'' @ resolved job_jsToSql (last (Object_keys data)) @ ''"=$'' @
                  decimal (length data) \<and>
      sqlForPartialUpdate data job_jsToSql =
        Inr \<lparr>setCols = join '', '' cols, values = Object_values data\<rparr> \<and>
      issued (snd (Job_update exec ToString id' data db)) =
        issued db @
        [(''UPDATE jobs '' @ newline @
          ''                      SET '' @ join '', '' cols @ '' '' @ newline @
          ''                      WHERE id = $'' @ decimal (length data + 1) @ '' '' @ newline @
          ''                      RETURNING id, '' @ newline @
          ''                                title, '' @ newline @
          ''                                salary, '' @ newline @
          ''                                equity AS "equity", '' @ newline @
          ''                                company_handle AS "companyHandle"'',
          Object_values data @ [id'])]\<close>
    by (intro exI [of _ cols]) (simp add: job_querySql_def)
qed

text \<open>
  One key: the clause uses \<open>$1\<close> and the predicate \<open>$2\<close>.
\<close>

theorem update_key_placeholder_witness:
  \<open>[(''name'', ''New'')] \<noteq> [] \<and>
   issued (snd (Company_update (\<lambda>text params s. (Inr ([] :: unit list), s)) (\<lambda>x. x) ''c1''
                  [(''name'', ''New'')] \<lparr>store = (), issued = []\<rparr>)) =
     [(''UPDATE companies '' @ newline @
       ''                      SET "name"=$1 '' @ newline @
       ''                      WHERE handle = $2 '' @ newline @
       ''                      RETURNING handle, '' @ newline @
       ''                                name, '' @ newline @
       ''                                description, '' @ newline @
       ''                                num_employees AS "numEmployees", '' @ newline @
       ''                                logo_url AS "logoUrl"'',
       [''New'', ''c1''])]\<close>
proof -
  let ?data = "[(''name'', ''New'')]"
  let ?exec = "\<lambda>(text :: string) (params :: string list) (s :: unit). (Inr ([] :: unit list) :: string + unit list, s)"
  let ?db = "\<lparr>store = (), issued = []\<rparr> :: (unit, string) db"
  have ne: "?data \<noteq> []" by simp
  from update_key_placeholder [OF ne, of ?exec "\<lambda>x. x" "''c1''" ?db, THEN conjunct1]
  obtain cols where
    len: "length cols = length ?data"
    and lst: \<open>last cols = ''"'' @ resolved company_jsToSql (last (Object_keys ?data)) @ ''"=$'' @
                  decimal (length ?data)\<close>
    and q: \<open>issued (snd (Company_update ?exec (\<lambda>x. x) ''c1'' ?data ?db)) =
        issued ?db @
        [(''UPDATE companies '' @ newline @
          ''                      SET '' @ join '', '' cols @ '' '' @ newline @
          ''                      WHERE handle = $'' @ decimal (length ?data + 1) @ '' '' @ newline @
          ''                      RETURNING handle, '' @ newline @
          ''                                name, '' @ newline @
          ''                                description, '' @ newline @
          ''                                num_employees AS "numEmployees", '' @ newline @
          ''                                logo_url AS "logoUrl"'',
          Object_values ?data @ [''c1''])]\<close>
    by blast
  have "cols = [cols ! 0]"
    using len by (intro one_elem) simp
  then have "cols = [last cols]"
    by (metis last.simps)
  also have \<open>last cols = ''"name"=$1''\<close>
    using lst by (simp add: resolved_def Object_prototype_def company_jsToSql_def Object_keys_def decimal_one)
  finally have \<open>join '', '' cols = ''"name"=$1''\<close>
    by simp
  then show ?thesis
    using q by (simp add: Object_values_def decimal_two)
qed

subsection \<open>The empty payload in the callers\<close>

text \<open>
  Claim C7. With an empty payload, \<^verbatim>\<open>Company.update\<close> and \<^verbatim>\<open>Job.update\<close> end with the
  \<open>BadRequestError\<close> that \<^verbatim>\<open>sqlForPartialUpdate\<close> raises, whatever the database would
  answer; the database is left as it was: no statement is sent and the stored data are
  untouched.
\<close>

theorem update_empty_payload:
  "sqlForPartialUpdate ([] :: (string \<times> 'v) list) company_jsToSql = Inl (BadRequestError ''No data'') \<and>
   Company_update exec ToString handle ([] :: (string \<times> 'v) list) db =
     (Inl (BadRequestError ''No data''), db) \<and>
   sqlForPartialUpdate ([] :: (string \<times> 'v) list) job_jsToSql = Inl (BadRequestError ''No data'') \<and>
   Job_update exec ToString id' ([] :: (string \<times> 'v) list) db =
     (Inl (BadRequestError ''No data''), db)"
  by (simp add: Company_update_def Job_update_def sqlForPartialUpdate_empty)

text \<open>
  The call of the test \<^verbatim>\<open>bad request with no data\<close>, on a database that would find a row.
\<close>

theorem update_empty_payload_witness:
  "Job_update (\<lambda>text params s. (Inr [''row''], s)) (\<lambda>x. x) ''j1'' [] \<lparr>store = (), issued = []\<rparr> =
     (Inl (BadRequestError ''No data''), \<lparr>store = (), issued = []\<rparr>)"
  using update_empty_payload
    [of "\<lambda>text params s. (Inr [''row''], s)" "\<lambda>x. x" "''j1''" "\<lparr>store = (), issued = []\<rparr>" "''j1''"]
  by simp

subsection \<open>No effect on the arguments or the database\<close>

text \<open>
  Claim C8. Called on references to a payload and to a table, \<^verbatim>\<open>sqlForPartialUpdate\<close>
  returns; what it returns, read back from the heap, is the result of the function on
  values; the database (stored data and statements sent) is unchanged; and every
  object that existed before the call, the two arguments among them, is unchanged:
  the call only creates new objects.
\<close>

theorem sqlForPartialUpdate_frame:
  assumes "deref w dataToUpdate = Some (Object_cell obj)"
    and "deref w jsToSql = Some (Table_cell table)"
  shows "\<exists>r w'. sqlForPartialUpdate_refs dataToUpdate jsToSql w = Some (r, w') \<and>
       outcome w' r = Some (sqlForPartialUpdate obj table) \<and>
       database w' = database w \<and>
       deref w' dataToUpdate = Some (Object_cell obj) \<and>
       deref w' jsToSql = Some (Table_cell table) \<and>
       (\<forall>a. a < length (heap w) \<longrightarrow> deref w' a = deref w a)"
proof (cases "obj = []")
  case True
  let ?w = "w\<lparr>heap := heap w @ [Strings_cell []]\<rparr>"
  have run: "sqlForPartialUpdate_refs dataToUpdate jsToSql w = Some (Inl (BadRequestError ''No data''), ?w)"
    using assms True by (simp add: sqlForPartialUpdate_refs_empty)
  have old: "deref ?w a = deref w a" if "a < length (heap w)" for a
    using that by (intro deref_old [where cs = "[Strings_cell []]"]) simp_all
  have "outcome ?w (Inl (BadRequestError ''No data'')) = Some (sqlForPartialUpdate obj table)"
    using True by (simp add: outcome_def sqlForPartialUpdate_def Object_keys_def)
  moreover have "database ?w = database w"
    by simp
  moreover have "deref ?w dataToUpdate = Some (Object_cell obj)"
    using old [OF deref_valid [OF assms(1)]] assms(1) by simp
  moreover have "deref ?w jsToSql = Some (Table_cell table)"
    using old [OF deref_valid [OF assms(2)]] assms(2) by simp
  ultimately show ?thesis
    using run old by blast
next
  case False
  let ?cs = "map (\<lambda>(idx, colName). col table colName idx) (List.enumerate 0 (Object_keys obj))"
  let ?new = "[Strings_cell (Object_keys obj), Strings_cell ?cs, Values_cell (Object_values obj),
               Fragment_cell (join '', '' ?cs) (length (heap w) + 2)]"
  let ?w = "w\<lparr>heap := heap w @ ?new\<rparr>"
  have run: "sqlForPartialUpdate_refs dataToUpdate jsToSql w = Some (Inr (length (heap w) + 3), ?w)"
    using assms False by (simp add: sqlForPartialUpdate_refs_nonempty)
  have old: "deref ?w a = deref w a" if "a < length (heap w)" for a
    using that by (intro deref_old [where cs = ?new]) simp_all
  have "deref ?w (length (heap w) + 3) = Some (Fragment_cell (join '', '' ?cs) (length (heap w) + 2))"
    by (simp add: deref_def nth_append)
  moreover have "deref ?w (length (heap w) + 2) = Some (Values_cell (Object_values obj))"
    by (simp add: deref_def nth_append)
  ultimately have "outcome ?w (Inr (length (heap w) + 3)) =
      Some (Inr \<lparr>setCols = join '', '' ?cs, values = Object_values obj\<rparr>)"
    by (simp add: outcome_def)
  also have "Inr \<lparr>setCols = join '', '' ?cs, values = Object_values obj\<rparr> = sqlForPartialUpdate obj table"
    using False by (simp add: sqlForPartialUpdate_def Object_keys_def Let_def)
  finally have "outcome ?w (Inr (length (heap w) + 3)) = Some (sqlForPartialUpdate obj table)" .
  moreover have "database ?w = database w"
    by simp
  moreover have "deref ?w dataToUpdate = Some (Object_cell obj)"
    using old [OF deref_valid [OF assms(1)]] assms(1) by simp
  moreover have "deref ?w jsToSql = Some (Table_cell table)"
    using old [OF deref_valid [OF assms(2)]] assms(2) by simp
  ultimately show ?thesis
    using run old by blast
qed

text \<open>
  A heap of two objects, the payload at reference 0 and the table at reference 1.
\<close>

theorem sqlForPartialUpdate_frame_witness:
  \<open>deref \<lparr>heap = [Object_cell [(''age'', 32::int)], Table_cell [''firstName'' \<mapsto> ''first_name'']],
           database = \<lparr>store = (), issued = []\<rparr>\<rparr> 0 = Some (Object_cell [(''age'', 32)]) \<and>
   deref \<lparr>heap = [Object_cell [(''age'', 32::int)], Table_cell [''firstName'' \<mapsto> ''first_name'']],
           database = \<lparr>store = (), issued = []\<rparr>\<rparr> 1 = Some (Table_cell [''firstName'' \<mapsto> ''first_name'']) \<and>
   (\<exists>r w'. sqlForPartialUpdate_refs 0 1
        \<lparr>heap = [Object_cell [(''age'', 32::int)], Table_cell [''firstName'' \<mapsto> ''first_name'']],
         database = \<lparr>store = (), issued = []\<rparr>\<rparr> = Some (r, w') \<and>
      outcome w' r = Some (Inr \<lparr>setCols = ''"age"=$1'', values = [32]\<rparr>) \<and>
      database w' = \<lparr>store = (), issued = []\<rparr> \<and>
      deref w' 0 = Some (Object_cell [(''age'', 32)]) \<and>
      deref w' 1 = Some (Table_cell [''firstName'' \<mapsto> ''first_name'']))\<close>
proof -
  let ?w = "\<lparr>heap = [Object_cell [(''age'', 32::int)], Table_cell [''firstName'' \<mapsto> ''first_name'']],
           database = \<lparr>store = (), issued = []\<rparr>\<rparr> :: (unit, int) world"
  have p: "deref ?w 0 = Some (Object_cell [(''age'', 32)])"
    by (simp add: deref_def)
  have t: "deref ?w 1 = Some (Table_cell [''firstName'' \<mapsto> ''first_name''])"
    by (simp add: deref_def)
  have v: \<open>sqlForPartialUpdate [(''age'', 32::int)] [''firstName'' \<mapsto> ''first_name''] =
      Inr \<lparr>setCols = ''"age"=$1'', values = [32]\<rparr>\<close>
    by (simp add: sqlForPartialUpdate_def Object_keys_def Object_values_def col_def resolved_def Object_prototype_def
        decimal_one)
  from sqlForPartialUpdate_frame [OF p t] obtain r w' where
    "sqlForPartialUpdate_refs 0 1 ?w = Some (r, w')"
    "outcome w' r = Some (sqlForPartialUpdate [(''age'', 32)] [''firstName'' \<mapsto> ''first_name''])"
    "database w' = database ?w"
    "deref w' 0 = Some (Object_cell [(''age'', 32)])"
    "deref w' 1 = Some (Table_cell [''firstName'' \<mapsto> ''first_name''])"
    by blast
  then show ?thesis
    using p t v by simp
qed

subsection \<open>No escaping of the column name\<close>




end
